theory Spec2Isabelle
  imports Complex_Main
begin

section \<open>JavaScript values\<close>

text \<open>
  The store of \<^verbatim>\<open>database.ts\<close> keeps a tree of JavaScript values. A number is an IEEE
  double: a finite value (given by the rational it denotes), negative zero, an infinity
  or NaN. An array is a list of slots, where \<open>None\<close> is a hole (what
  \<^verbatim>\<open>delete array[i]\<close> leaves behind); an object is the list of its own properties in
  creation order, with distinct keys. \<open>JUndefined\<close> is the absent-indicator.

  Every object inherits from \<^verbatim>\<open>Object.prototype\<close> and every array from
  \<^verbatim>\<open>Array.prototype\<close>, so a read by a computed key can find a member of a prototype:
  a built-in function, named here by its path, or the prototype object itself. The
  prototypes are as the runtime starts them. Arguments and stored values are meant to be
  data; the three last constructors are what reads return beyond data.

  Values are trees: two stored composites never share a reference. A JavaScript array
  has fewer than \<open>2\<^sup>3\<^sup>2\<close> slots; the lists here are not bounded.
\<close>

datatype jsnum = Finite rat | NegZero | PosInf | NegInf | NaN

datatype jsval =
    JUndefined
  | JNull
  | JBool bool
  | JNum jsnum
  | JStr string
  | JArr "jsval option list"
  | JObj "(string \<times> jsval) list"
  | JFunction string
  | JObjectPrototype
  | JArrayPrototype

type_synonym props = "(string \<times> jsval) list"

fun typeof :: "jsval \<Rightarrow> string" where
  "typeof JUndefined = ''undefined''"
| "typeof JNull = ''object''"
| "typeof (JBool b) = ''boolean''"
| "typeof (JNum n) = ''number''"
| "typeof (JStr s) = ''string''"
| "typeof (JArr xs) = ''object''"
| "typeof (JObj ps) = ''object''"
| "typeof (JFunction f) = ''function''"
| "typeof JObjectPrototype = ''object''"
| "typeof JArrayPrototype = ''object''"

text \<open>\<^verbatim>\<open>!v\<close> is \<open>\<not> truthy v\<close>.\<close>

fun truthy :: "jsval \<Rightarrow> bool" where
  "truthy JUndefined = False"
| "truthy JNull = False"
| "truthy (JBool b) = b"
| "truthy (JNum (Finite q)) = (q \<noteq> 0)"
| "truthy (JNum NegZero) = False"
| "truthy (JNum NaN) = False"
| "truthy (JNum PosInf) = True"
| "truthy (JNum NegInf) = True"
| "truthy (JStr s) = (s \<noteq> [])"
| "truthy (JArr xs) = True"
| "truthy (JObj ps) = True"
| "truthy (JFunction f) = True"
| "truthy JObjectPrototype = True"
| "truthy JArrayPrototype = True"

text \<open>\<^verbatim>\<open>Array.isArray\<close>; \<^verbatim>\<open>Array.prototype\<close> is itself an array, an empty one.\<close>

fun isArray :: "jsval \<Rightarrow> bool" where
  "isArray (JArr xs) = True"
| "isArray JArrayPrototype = True"
| "isArray v = False"

text \<open>\<^verbatim>\<open>Number.isInteger\<close>: a number with a finite integral value.\<close>

fun isInteger :: "jsval \<Rightarrow> bool" where
  "isInteger (JNum (Finite q)) = (q = of_int \<lfloor>q\<rfloor>)"
| "isInteger (JNum NegZero) = True"
| "isInteger v = False"

text \<open>\<^verbatim>\<open>n === 0\<close> on numbers: both zeros are equal to \<open>0\<close>.\<close>

fun num_eq :: "jsnum \<Rightarrow> jsnum \<Rightarrow> bool" where
  "num_eq NaN m = False"
| "num_eq n NaN = False"
| "num_eq (Finite q) NegZero = (q = 0)"
| "num_eq NegZero (Finite q) = (q = 0)"
| "num_eq n m = (n = m)"

text \<open>
  \<^verbatim>\<open>a === b\<close>. Primitives compare by value; arrays and objects compare by reference,
  and a stored composite is a reference of its own, so it equals no argument. A built-in
  is one object, equal to itself.
\<close>

fun strict_eq :: "jsval \<Rightarrow> jsval \<Rightarrow> bool" where
  "strict_eq (JNum a) v = (case v of JNum b \<Rightarrow> num_eq a b | _ \<Rightarrow> False)"
| "strict_eq (JArr xs) v = False"
| "strict_eq (JObj ps) v = False"
| "strict_eq a v = (a = v)"

section \<open>Properties\<close>

fun get_prop :: "props \<Rightarrow> string \<Rightarrow> jsval" where
  "get_prop [] k = JUndefined"
| "get_prop ((k', v) # ps) k = (if k' = k then v else get_prop ps k)"

fun has_prop :: "props \<Rightarrow> string \<Rightarrow> bool" where
  "has_prop [] k = False"
| "has_prop ((k', v) # ps) k = (k' = k \<or> has_prop ps k)"

text \<open>\<^verbatim>\<open>obj[k] = v\<close>: an existing property keeps its place, a new one goes last.\<close>

fun set_prop :: "string \<Rightarrow> jsval \<Rightarrow> props \<Rightarrow> props" where
  "set_prop k v [] = [(k, v)]"
| "set_prop k v ((k', v') # ps) =
     (if k' = k then (k, v) # ps else (k', v') # set_prop k v ps)"

text \<open>\<^verbatim>\<open>delete obj[k]\<close>.\<close>

fun delete_prop :: "string \<Rightarrow> props \<Rightarrow> props" where
  "delete_prop k [] = []"
| "delete_prop k ((k', v') # ps) =
     (if k' = k then delete_prop k ps else (k', v') # delete_prop k ps)"

text \<open>
  An array index is a canonical decimal string (no leading zero) below \<open>2\<^sup>3\<^sup>2 - 1\<close>.
\<close>

definition is_digit :: "char \<Rightarrow> bool" where
  "is_digit c = (c \<in> set ''0123456789'')"

definition digits_to_nat :: "string \<Rightarrow> nat" where
  "digits_to_nat s = foldl (\<lambda>n c. 10 * n + (of_char c - 48)) 0 s"

definition array_index :: "string \<Rightarrow> nat option" where
  "array_index s =
     (if s \<noteq> [] \<and> list_all is_digit s \<and> (s = ''0'' \<or> hd s \<noteq> CHR ''0'')
         \<and> digits_to_nat s < 2 ^ 32 - 1
      then Some (digits_to_nat s) else None)"

text \<open>
  The own keys of an object, in the order of \<^verbatim>\<open>Object.keys\<close> and \<^verbatim>\<open>for ... in\<close>:
  array indices ascending, then the other keys in creation order.
\<close>

definition own_keys :: "props \<Rightarrow> string list" where
  "own_keys ps =
     sort_key (\<lambda>k. the (array_index k)) (filter (\<lambda>k. array_index k \<noteq> None) (map fst ps))
     @ filter (\<lambda>k. array_index k = None) (map fst ps)"

text \<open>A slot of an array; a hole and a place past the end read as \<^verbatim>\<open>undefined\<close>.\<close>

definition slot :: "jsval option list \<Rightarrow> nat \<Rightarrow> jsval" where
  "slot xs i = (if i < length xs then (case xs ! i of Some v \<Rightarrow> v | None \<Rightarrow> JUndefined)
                else JUndefined)"

text \<open>The slots of an array; \<^verbatim>\<open>Array.prototype\<close> and a value that is no array have none.\<close>

fun elements :: "jsval \<Rightarrow> jsval option list" where
  "elements (JArr xs) = xs"
| "elements v = []"

fun the_string :: "jsval \<Rightarrow> string" where
  "the_string (JStr s) = s"
| "the_string v = []"

fun the_number :: "jsval \<Rightarrow> jsnum" where
  "the_number (JNum n) = n"
| "the_number v = NaN"

text \<open>
  \<^verbatim>\<open>array[index]\<close> for a number that passed \<^verbatim>\<open>Number.isInteger\<close>: the property key is
  the decimal string of the number, which names a slot when the number is not negative
  (\<open>-0\<close> prints as \<open>0\<close>). No prototype has a member under the decimal string of an
  integer, so a hole, a place past the end and a negative index read as \<^verbatim>\<open>undefined\<close>.
\<close>

fun array_at :: "jsval option list \<Rightarrow> jsval \<Rightarrow> jsval" where
  "array_at xs (JNum (Finite q)) = (if 0 \<le> q then slot xs (nat \<lfloor>q\<rfloor>) else JUndefined)"
| "array_at xs (JNum NegZero) = slot xs 0"
| "array_at xs v = JUndefined"

text \<open>\<^verbatim>\<open>array.push(v)\<close>, in place. Pushing on \<^verbatim>\<open>Array.prototype\<close> leaves the
  reference to it as it is.\<close>

fun array_push :: "jsval \<Rightarrow> jsval \<Rightarrow> jsval" where
  "array_push (JArr xs) v = JArr (xs @ [Some v])"
| "array_push a v = a"

text \<open>
  \<^verbatim>\<open>this.data[k].push(v)\<close>, on the array that \<^verbatim>\<open>this.data[k]\<close> reads: an own entry,
  or the prototype that the assignment before it installed, which is no own property.
\<close>

definition push_at :: "string \<Rightarrow> jsval \<Rightarrow> props \<Rightarrow> props" where
  "push_at k v ps = (if has_prop ps k then set_prop k (array_push (get_prop ps k) v) ps else ps)"

text \<open>\<^verbatim>\<open>array.filter(item => item !== value)\<close>: holes are skipped, the result is a new
  dense array.\<close>

fun present :: "jsval option list \<Rightarrow> jsval list" where
  "present [] = []"
| "present (None # xs) = present xs"
| "present (Some v # xs) = v # present xs"

fun array_without :: "jsval \<Rightarrow> jsval \<Rightarrow> jsval" where
  "array_without (JArr xs) value =
     JArr (map Some (filter (\<lambda>item. \<not> strict_eq item value) (present xs)))"
| "array_without JArrayPrototype value = JArr []"
| "array_without a value = a"

text \<open>\<^verbatim>\<open>k.startsWith(p)\<close>.\<close>

fun startsWith :: "string \<Rightarrow> string \<Rightarrow> bool" where
  "startsWith k [] = True"
| "startsWith [] (p # ps) = False"
| "startsWith (c # k) (p # ps) = (c = p \<and> startsWith k ps)"

section \<open>The error catalog\<close>

text \<open>
  The module exports six error objects. \<^verbatim>\<open>errors.NAME\<close> is a property read: a name
  the module does not export reads as \<^verbatim>\<open>undefined\<close>, and \<^verbatim>\<open>throw errors.NAME\<close> then
  throws \<^verbatim>\<open>undefined\<close>.
\<close>

datatype DatabaseError =
    FILE_NOT_FOUND
  | INVALID_JSON
  | INVALID_VALUE
  | KEY_NOT_FOUND
  | OBJECT_NOT_FOUND
  | ARRAY_NOT_FOUND

fun message :: "DatabaseError \<Rightarrow> string" where
  "message FILE_NOT_FOUND = ''The database file could not be found.''"
| "message INVALID_JSON = ''The database file contains invalid JSON.''"
| "message INVALID_VALUE = ''The value provided cannot be null or undefined.''"
| "message KEY_NOT_FOUND = ''The requested key does not exist in the database.''"
| "message OBJECT_NOT_FOUND = ''The requested key is not an object.''"
| "message ARRAY_NOT_FOUND = ''The requested key is not an array.''"

definition exports :: "(string \<times> DatabaseError) list" where
  "exports =
     [(''FILE_NOT_FOUND'', FILE_NOT_FOUND),
      (''INVALID_JSON'', INVALID_JSON),
      (''INVALID_VALUE'', INVALID_VALUE),
      (''KEY_NOT_FOUND'', KEY_NOT_FOUND),
      (''OBJECT_NOT_FOUND'', OBJECT_NOT_FOUND),
      (''ARRAY_NOT_FOUND'', ARRAY_NOT_FOUND)]"

text \<open>What a \<^verbatim>\<open>throw\<close> can raise: an exported error, \<^verbatim>\<open>undefined\<close>, or a TypeError of
  the runtime.\<close>

datatype thrown = Error DatabaseError | Undefined | TypeError

definition errors :: "string \<Rightarrow> thrown" where
  "errors name = (case map_of exports name of Some e \<Rightarrow> Error e | None \<Rightarrow> Undefined)"

section \<open>The runtime\<close>

text \<open>
  \<^verbatim>\<open>JSON.stringify(v, null, 2)\<close> and the four arithmetic operators on doubles belong to
  the runtime, and so do the methods of \<^verbatim>\<open>Array.prototype\<close>, whose names differ from
  one version to the next; the model takes them as given.
\<close>

record runtime =
  stringify :: "jsval \<Rightarrow> string"
  num_add :: "jsnum \<Rightarrow> jsnum \<Rightarrow> jsnum"
  num_sub :: "jsnum \<Rightarrow> jsnum \<Rightarrow> jsnum"
  num_mul :: "jsnum \<Rightarrow> jsnum \<Rightarrow> jsnum"
  num_div :: "jsnum \<Rightarrow> jsnum \<Rightarrow> jsnum"
  array_methods :: "string list"

subsection \<open>What the prototypes hold\<close>

text \<open>
  The members of \<^verbatim>\<open>Object.prototype\<close>: the constructor, ten methods, and the accessor
  \<^verbatim>\<open>__proto__\<close>, whose getter returns the prototype of the object it is read on.
\<close>

definition object_prototype_methods :: "string list" where
  "object_prototype_methods =
     [''__defineGetter__'', ''__defineSetter__'', ''hasOwnProperty'', ''__lookupGetter__'',
      ''__lookupSetter__'', ''isPrototypeOf'', ''propertyIsEnumerable'', ''toString'',
      ''valueOf'', ''toLocaleString'']"

text \<open>What an object whose prototype is \<^verbatim>\<open>Object.prototype\<close> reads under a name it
  does not own.\<close>

definition object_inherited :: "string \<Rightarrow> jsval" where
  "object_inherited k =
     (if k = ''__proto__'' then JObjectPrototype
      else if k = ''constructor'' then JFunction ''Object''
      else if k \<in> set object_prototype_methods then JFunction (''Object.prototype.'' @ k)
      else JUndefined)"

text \<open>
  \<^verbatim>\<open>this.data[k]\<close>, and \<^verbatim>\<open>object[k]\<close> on a stored object: the own property, else
  the inherited member.
\<close>

definition read_prop :: "props \<Rightarrow> string \<Rightarrow> jsval" where
  "read_prop ps k = (if has_prop ps k then get_prop ps k else object_inherited k)"

text \<open>
  \<^verbatim>\<open>this.data[k] = v\<close>. Under a key the object owns, or under any other key but
  \<^verbatim>\<open>__proto__\<close>, the assignment sets the own property. Under \<^verbatim>\<open>__proto__\<close>, when the
  object owns no such key, it runs the inherited setter: that replaces the prototype of
  the object when \<open>v\<close> is an object and does nothing otherwise, and creates no own
  property either way. The state below records own properties; after such a replacement
  it says nothing of what later reads find through the new prototype.
\<close>

definition assign :: "string \<Rightarrow> jsval \<Rightarrow> props \<Rightarrow> props" where
  "assign k v ps = (if k = ''__proto__'' \<and> \<not> has_prop ps k then ps else set_prop k v ps)"

text \<open>
  What an array reads under a name that is neither an index nor \<^verbatim>\<open>length\<close>: a member
  of \<^verbatim>\<open>Array.prototype\<close>, else one of \<^verbatim>\<open>Object.prototype\<close>.
\<close>

definition array_inherited :: "runtime \<Rightarrow> string \<Rightarrow> jsval" where
  "array_inherited rt k =
     (if k = ''__proto__'' then JArrayPrototype
      else if k = ''constructor'' then JFunction ''Array''
      else if k \<in> set (array_methods rt) then JFunction (''Array.prototype.'' @ k)
      else object_inherited k)"

text \<open>
  \<^verbatim>\<open>object[k]\<close> for a string key, on what \<^verbatim>\<open>this.data[key]\<close> read. The prototype of
  \<^verbatim>\<open>Object.prototype\<close> is \<^verbatim>\<open>null\<close>, and that of \<^verbatim>\<open>Array.prototype\<close>, an empty
  array, is \<^verbatim>\<open>Object.prototype\<close>.
\<close>

fun get_member :: "runtime \<Rightarrow> jsval \<Rightarrow> string \<Rightarrow> jsval" where
  "get_member rt (JObj ps) k = read_prop ps k"
| "get_member rt (JArr xs) k =
     (case array_index k of
        Some i \<Rightarrow> slot xs i
      | None \<Rightarrow> if k = ''length'' then JNum (Finite (of_nat (length xs)))
                else array_inherited rt k)"
| "get_member rt JObjectPrototype k = (if k = ''__proto__'' then JNull else object_inherited k)"
| "get_member rt JArrayPrototype k =
     (case array_index k of
        Some i \<Rightarrow> JUndefined
      | None \<Rightarrow> if k = ''length'' then JNum (Finite 0)
                else if k = ''__proto__'' then JObjectPrototype
                else array_inherited rt k)"
| "get_member rt v k = JUndefined"

text \<open>
  \<^verbatim>\<open>delete object[k]\<close> on what \<^verbatim>\<open>this.data[objectKey]\<close> reads, in place. On an array
  it empties the slot of an index and leaves the length; the code of a class body is
  strict, so deleting the \<^verbatim>\<open>length\<close> of an array throws a TypeError. The members of
  \<^verbatim>\<open>Object.prototype\<close> can be deleted; the reference to the prototype stays as it is.
\<close>

fun delete_member :: "jsval \<Rightarrow> string \<Rightarrow> thrown + jsval" where
  "delete_member (JObj ps) k = Inr (JObj (delete_prop k ps))"
| "delete_member (JArr xs) k =
     (case array_index k of
        Some i \<Rightarrow> Inr (JArr (if i < length xs then xs[i := None] else xs))
      | None \<Rightarrow> if k = ''length'' then Inl TypeError else Inr (JArr xs))"
| "delete_member JArrayPrototype k = (if k = ''length'' then Inl TypeError else Inr JArrayPrototype)"
| "delete_member v k = Inr v"

section \<open>The file system\<close>

text \<open>
  The file system maps a path to the text stored there. Whether the process may write
  or remove a path is the environment's decision. A refused call changes nothing.
\<close>

record filesystem =
  files :: "string \<rightharpoonup> string"
  may_write :: "string \<Rightarrow> bool"
  may_unlink :: "string \<Rightarrow> bool"

definition writeFile :: "filesystem \<Rightarrow> string \<Rightarrow> string \<Rightarrow> filesystem option" where
  "writeFile fs p content =
     (if may_write fs p then Some (fs\<lparr>files := (files fs)(p \<mapsto> content)\<rparr>) else None)"

definition unlink :: "filesystem \<Rightarrow> string \<Rightarrow> filesystem option" where
  "unlink fs p =
     (if files fs p \<noteq> None \<and> may_unlink fs p
      then Some (fs\<lparr>files := (files fs)(p := None)\<rparr>) else None)"

section \<open>The Database class\<close>

text \<open>
  The state is the instance (\<^verbatim>\<open>this.filePath\<close>, the own properties of \<^verbatim>\<open>this.data\<close>)
  and the file system. The data object is a plain object: its prototype is
  \<^verbatim>\<open>Object.prototype\<close>. A method takes the state and the arguments as the caller passed
  them, of any type, and returns what it throws or returns with the state it leaves; a
  promise is modelled by its settlement, and \<^verbatim>\<open>void\<close> by \<open>JUndefined\<close>. Calls do not
  overlap, and the \<^verbatim>\<open>load\<close> that the constructor starts has settled. The
  \<^verbatim>\<open>console.error\<close> lines are left out. The methods \<^verbatim>\<open>set\<close> and \<^verbatim>\<open>divide\<close> are
  \<open>set_value\<close> and \<open>divide_op\<close> here.
\<close>

record world =
  filePath :: string
  data :: props
  disk :: filesystem

type_synonym result = "(thrown + jsval) \<times> world"

definition save :: "runtime \<Rightarrow> world \<Rightarrow> result" where
  "save rt w =
     (case writeFile (disk w) (filePath w) (stringify rt (JObj (data w))) of
        None \<Rightarrow> (Inl (errors ''FILE_NOT_FOUND''), w)
      | Some d \<Rightarrow> (Inr JUndefined, w\<lparr>disk := d\<rparr>))"

definition set_value :: "runtime \<Rightarrow> world \<Rightarrow> jsval \<Rightarrow> jsval \<Rightarrow> result" where
  "set_value rt w key value =
     (if typeof key \<noteq> ''string'' \<or> value = JNull \<or> value = JUndefined
      then (Inl (errors ''INVALID_VALUE''), w)
      else save rt (w\<lparr>data := assign (the_string key) value (data w)\<rparr>))"

text \<open>The two statements of \<^verbatim>\<open>push\<close> between its guard and its save.\<close>

definition push_data :: "string \<Rightarrow> jsval \<Rightarrow> props \<Rightarrow> props" where
  "push_data k value d =
     (let d1 = (if \<not> isArray (read_prop d k) then assign k (JArr []) d else d)
      in push_at k value d1)"

definition push :: "runtime \<Rightarrow> world \<Rightarrow> jsval \<Rightarrow> jsval \<Rightarrow> result" where
  "push rt w key value =
     (if typeof key \<noteq> ''string'' \<or> value = JNull \<or> value = JUndefined
      then (Inl (errors ''INVALID_VALUE''), w)
      else save rt (w\<lparr>data := push_data (the_string key) value (data w)\<rparr>))"

definition objectFetch :: "runtime \<Rightarrow> world \<Rightarrow> jsval \<Rightarrow> jsval \<Rightarrow> result" where
  "objectFetch rt w key subKey =
     (if typeof key \<noteq> ''string'' \<or> typeof subKey \<noteq> ''string''
      then (Inl (errors ''INVALID_VALUE''), w)
      else
        let object = read_prop (data w) (the_string key)
        in if \<not> truthy object \<or> typeof object \<noteq> ''object''
           then (Inl (errors ''OBJECT_NOT_FOUND''), w)
           else (Inr (get_member rt object (the_string subKey)), w))"

definition arrayFetch :: "world \<Rightarrow> jsval \<Rightarrow> jsval \<Rightarrow> result" where
  "arrayFetch w key index =
     (if typeof key \<noteq> ''string'' \<or> \<not> isInteger index
      then (Inl (errors ''INVALID_VALUE''), w)
      else
        let array = read_prop (data w) (the_string key)
        in if \<not> isArray array then (Inl (errors ''ARRAY_NOT_FOUND''), w)
           else (Inr (array_at (elements array) index), w))"

definition fetch :: "world \<Rightarrow> jsval \<Rightarrow> result" where
  "fetch w key =
     (if typeof key \<noteq> ''string'' then (Inl (errors ''INVALID_VALUE''), w)
      else (Inr (read_prop (data w) (the_string key)), w))"

definition remove :: "runtime \<Rightarrow> world \<Rightarrow> jsval \<Rightarrow> result" where
  "remove rt w key =
     (if typeof key \<noteq> ''string'' then (Inl (errors ''INVALID_VALUE''), w)
      else save rt (w\<lparr>data := delete_prop (the_string key) (data w)\<rparr>))"

definition delete :: "runtime \<Rightarrow> world \<Rightarrow> jsval \<Rightarrow> jsval \<Rightarrow> result" where
  "delete rt w key value =
     (if typeof key \<noteq> ''string'' \<or> value = JNull \<or> value = JUndefined
      then (Inl (errors ''INVALID_VALUE''), w)
      else
        let k = the_string key
        in if isArray (read_prop (data w) k)
           then save rt (w\<lparr>data := assign k (array_without (read_prop (data w) k) value)
                                     (data w)\<rparr>)
           else (Inr JUndefined, w))"

text \<open>
  \<^verbatim>\<open>deleteKey\<close> deletes in place on the object that \<^verbatim>\<open>this.data[objectKey]\<close> reads:
  an own entry changes; \<^verbatim>\<open>Object.prototype\<close>, read under \<^verbatim>\<open>__proto__\<close>, is no own
  property, and the own properties stay as they are.
\<close>

definition deleteKey :: "runtime \<Rightarrow> world \<Rightarrow> jsval \<Rightarrow> jsval \<Rightarrow> result" where
  "deleteKey rt w objectKey key =
     (if typeof objectKey \<noteq> ''string'' \<or> typeof key \<noteq> ''string''
      then (Inl (errors ''INVALID_VALUE''), w)
      else
        let ok = the_string objectKey; object = read_prop (data w) ok
        in if truthy object \<and> typeof object = ''object''
           then (case delete_member object (the_string key) of
                   Inl e \<Rightarrow> (Inl e, w)
                 | Inr object' \<Rightarrow>
                     save rt (w\<lparr>data := (if has_prop (data w) ok
                                           then set_prop ok object' (data w) else data w)\<rparr>))
           else (Inl (errors ''OBJECT_NOT_FOUND''), w))"

text \<open>The body of the \<^verbatim>\<open>for (let k in this.data)\<close> loop of \<^verbatim>\<open>deleteEach\<close>; the
  members of \<^verbatim>\<open>Object.prototype\<close> are not enumerable, so the loop visits own keys.\<close>

definition deleteEach_step :: "string \<Rightarrow> props \<Rightarrow> string \<Rightarrow> props" where
  "deleteEach_step key d k = (if startsWith k key then delete_prop k d else d)"

definition deleteEach :: "runtime \<Rightarrow> world \<Rightarrow> jsval \<Rightarrow> result" where
  "deleteEach rt w key =
     (if typeof key \<noteq> ''string'' then (Inl (errors ''INVALID_VALUE''), w)
      else save rt (w\<lparr>data := foldl (deleteEach_step (the_string key)) (data w)
                                    (own_keys (data w))\<rparr>))"

definition clear :: "runtime \<Rightarrow> world \<Rightarrow> result" where
  "clear rt w = save rt (w\<lparr>data := []\<rparr>)"

text \<open>Whatever the \<^verbatim>\<open>try\<close> block of \<^verbatim>\<open>destroy\<close> throws is replaced by
  \<^verbatim>\<open>errors.FILE_NOT_FOUND\<close>.\<close>

definition destroy :: "runtime \<Rightarrow> world \<Rightarrow> result" where
  "destroy rt w =
     (case unlink (disk w) (filePath w) of
        None \<Rightarrow> (Inl (errors ''FILE_NOT_FOUND''), w)
      | Some d \<Rightarrow>
          (case clear rt (w\<lparr>disk := d\<rparr>) of
             (Inl e, w') \<Rightarrow> (Inl (errors ''FILE_NOT_FOUND''), w')
           | (Inr r, w') \<Rightarrow> (Inr r, w')))"

text \<open>
  \<^verbatim>\<open>this.data.hasOwnProperty(key)\<close> looks the method up on the data object: a stored
  key of that name shadows the inherited method, and calling a stored value that is no
  function throws a TypeError. A stored function is taken to be the inherited one.
\<close>

definition has :: "world \<Rightarrow> jsval \<Rightarrow> result" where
  "has w key =
     (if typeof key \<noteq> ''string'' then (Inl (errors ''INVALID_VALUE''), w)
      else if typeof (read_prop (data w) ''hasOwnProperty'') \<noteq> ''function''
      then (Inl TypeError, w)
      else (Inr (JBool (has_prop (data w) (the_string key))), w))"

text \<open>
  The arithmetic methods. A number is read under a key only from an own property, so
  the compound assignment sets that property.
\<close>

definition add :: "runtime \<Rightarrow> world \<Rightarrow> jsval \<Rightarrow> jsval \<Rightarrow> result" where
  "add rt w key value =
     (if typeof key \<noteq> ''string'' \<or> typeof value \<noteq> ''number''
      then (Inl (errors ''INVALID_VALUE''), w)
      else
        let k = the_string key
        in if typeof (read_prop (data w) k) = ''number''
           then save rt (w\<lparr>data := assign k
                   (JNum (num_add rt (the_number (read_prop (data w) k)) (the_number value)))
                   (data w)\<rparr>)
           else (Inl (errors ''INVALID_VALUE''), w))"

definition subtract :: "runtime \<Rightarrow> world \<Rightarrow> jsval \<Rightarrow> jsval \<Rightarrow> result" where
  "subtract rt w key value =
     (if typeof key \<noteq> ''string'' \<or> typeof value \<noteq> ''number''
      then (Inl (errors ''INVALID_VALUE''), w)
      else
        let k = the_string key
        in if typeof (read_prop (data w) k) = ''number''
           then save rt (w\<lparr>data := assign k
                   (JNum (num_sub rt (the_number (read_prop (data w) k)) (the_number value)))
                   (data w)\<rparr>)
           else (Inl (errors ''INVALID_VALUE''), w))"

definition multiply :: "runtime \<Rightarrow> world \<Rightarrow> jsval \<Rightarrow> jsval \<Rightarrow> result" where
  "multiply rt w key value =
     (if typeof key \<noteq> ''string'' \<or> typeof value \<noteq> ''number''
      then (Inl (errors ''INVALID_VALUE''), w)
      else
        let k = the_string key
        in if typeof (read_prop (data w) k) = ''number''
           then save rt (w\<lparr>data := assign k
                   (JNum (num_mul rt (the_number (read_prop (data w) k)) (the_number value)))
                   (data w)\<rparr>)
           else (Inl (errors ''INVALID_VALUE''), w))"

definition divide_op :: "runtime \<Rightarrow> world \<Rightarrow> jsval \<Rightarrow> jsval \<Rightarrow> result" where
  "divide_op rt w key value =
     (if typeof key \<noteq> ''string'' \<or> typeof value \<noteq> ''number''
      then (Inl (errors ''INVALID_VALUE''), w)
      else
        let k = the_string key
        in if typeof (read_prop (data w) k) = ''number''
           then if strict_eq value (JNum (Finite 0))
                then (Inl (errors ''DIVISION_BY_ZERO''), w)
                else save rt (w\<lparr>data := assign k
                   (JNum (num_div rt (the_number (read_prop (data w) k)) (the_number value)))
                   (data w)\<rparr>)
           else (Inl (errors ''INVALID_VALUE''), w))"

definition getAllKeys :: "world \<Rightarrow> result" where
  "getAllKeys w = (Inr (JArr (map (\<lambda>k. Some (JStr k)) (own_keys (data w)))), w)"

definition getAllValues :: "world \<Rightarrow> result" where
  "getAllValues w =
     (Inr (JArr (map (\<lambda>k. Some (get_prop (data w) k)) (own_keys (data w)))), w)"

section \<open>Vocabulary of the properties\<close>

text \<open>A call succeeded when it returned (its promise resolved) rather than threw.\<close>

definition succeeded :: "result \<Rightarrow> bool" where
  "succeeded res = (case fst res of Inl e \<Rightarrow> False | Inr v \<Rightarrow> True)"

text \<open>The document at the store's path is the serialization of the data in memory.\<close>

definition in_sync :: "runtime \<Rightarrow> world \<Rightarrow> bool" where
  "in_sync rt w = (files (disk w) (filePath w) = Some (stringify rt (JObj (data w))))"

text \<open>A plain object: no array and no built-in.\<close>

fun isObject :: "jsval \<Rightarrow> bool" where
  "isObject (JObj ps) = True"
| "isObject v = False"

text \<open>The integer an integral number denotes (\<open>-0\<close> denotes \<open>0\<close>).\<close>

fun integer_of :: "jsval \<Rightarrow> int" where
  "integer_of (JNum (Finite q)) = \<lfloor>q\<rfloor>"
| "integer_of v = 0"

section \<open>A concrete runtime and store\<close>

text \<open>
  The theorems hold for every runtime. Where a closed instance is needed, this one
  stands in: it prints an object as its keys, computes on finite numbers exactly, which
  agrees with doubles on the small integers used below, and has the array methods of
  ECMAScript 5.
\<close>

fun exact :: "(rat \<Rightarrow> rat \<Rightarrow> rat) \<Rightarrow> jsnum \<Rightarrow> jsnum \<Rightarrow> jsnum" where
  "exact f (Finite a) (Finite b) = Finite (f a b)"
| "exact f a b = NaN"

fun print_keys :: "jsval \<Rightarrow> string" where
  "print_keys (JObj ps) = ''{'' @ concat (map (\<lambda>p. fst p @ '';'') ps) @ ''}''"
| "print_keys v = []"

definition example_runtime :: runtime where
  "example_runtime =
     \<lparr>stringify = print_keys, num_add = exact (+), num_sub = exact (-),
      num_mul = exact (*), num_div = exact (/),
      array_methods = [''concat'', ''every'', ''filter'', ''forEach'', ''indexOf'', ''join'',
        ''lastIndexOf'', ''map'', ''pop'', ''push'', ''reduce'', ''reduceRight'', ''reverse'',
        ''shift'', ''slice'', ''some'', ''sort'', ''splice'', ''toLocaleString'', ''toString'',
        ''unshift'']\<rparr>"

definition example_disk :: filesystem where
  "example_disk =
     \<lparr>files = [''/morsel-database.json'' \<mapsto> ''{}''],
      may_write = (\<lambda>p. True), may_unlink = (\<lambda>p. True)\<rparr>"

definition example_world :: world where
  "example_world =
     \<lparr>filePath = ''/morsel-database.json'',
      data = [(''name'', JStr ''morsel''),
              (''count'', JNum (Finite 3)),
              (''tags'', JArr [Some (JStr ''a''), Some (JStr ''b'')]),
              (''cfg'', JObj [(''debug'', JBool True)])],
      disk = example_disk\<rparr>"

text \<open>A store just constructed on a path where there is no file.\<close>

definition fresh_world :: world where
  "fresh_world =
     \<lparr>filePath = ''/morsel-database.json'',
      data = [],
      disk = \<lparr>files = Map.empty, may_write = (\<lambda>p. True), may_unlink = (\<lambda>p. True)\<rparr>\<rparr>"

text \<open>The same store on a file system that refuses every write.\<close>

definition readonly_world :: world where
  "readonly_world = example_world\<lparr>disk := example_disk\<lparr>may_write := (\<lambda>p. False)\<rparr>\<rparr>"

section \<open>Basic facts\<close>

lemma errors_simps:
  "errors ''FILE_NOT_FOUND'' = Error FILE_NOT_FOUND"
  "errors ''INVALID_VALUE'' = Error INVALID_VALUE"
  "errors ''OBJECT_NOT_FOUND'' = Error OBJECT_NOT_FOUND"
  "errors ''ARRAY_NOT_FOUND'' = Error ARRAY_NOT_FOUND"
  "errors ''DIVISION_BY_ZERO'' = Undefined"
  by (simp_all add: errors_def exports_def)

lemma get_prop_map_of:
  "get_prop ps k = (case map_of ps k of Some v \<Rightarrow> v | None \<Rightarrow> JUndefined)"
  by (induction ps) auto

lemma get_prop_absent: "\<not> has_prop ps k \<Longrightarrow> get_prop ps k = JUndefined"
  by (induction ps) auto

lemma get_set_prop: "get_prop (set_prop k v ps) k = v"
  by (induction ps) auto

lemma set_prop_twice: "set_prop k v (set_prop k u ps) = set_prop k v ps"
  by (induction ps) auto

lemma delete_prop_filter: "delete_prop k ps = filter (\<lambda>p. fst p \<noteq> k) ps"
  by (induction ps) auto

lemma set_own_keys: "set (own_keys ps) = fst ` set ps"
  by (auto simp: own_keys_def)



lemma get_prop_present: "get_prop ps k \<noteq> JUndefined \<Longrightarrow> has_prop ps k"
  by (induction ps) (auto split: if_splits)

lemma object_inherited_cases:
  "object_inherited k = JObjectPrototype \<and> k = ''__proto__''
   \<or> (\<exists>f. object_inherited k = JFunction f) \<and> k \<noteq> ''__proto__''
   \<or> object_inherited k = JUndefined \<and> k \<noteq> ''__proto__''"
  by (simp add: object_inherited_def)

lemma object_inherited_not_number: "typeof (object_inherited k) \<noteq> ''number''"
  using object_inherited_cases [of k] by auto

lemma object_inherited_not_array: "\<not> isArray (object_inherited k)"
  using object_inherited_cases [of k] by auto

lemma read_prop_own: "has_prop ps k \<Longrightarrow> read_prop ps k = get_prop ps k"
  by (simp add: read_prop_def)

lemma read_prop_present: "get_prop ps k \<noteq> JUndefined \<Longrightarrow> read_prop ps k = get_prop ps k"
  by (simp add: read_prop_def get_prop_present)

lemma read_prop_absent: "\<not> has_prop ps k \<Longrightarrow> read_prop ps k = object_inherited k"
  by (simp add: read_prop_def)

lemma isArray_read_prop: "isArray (read_prop ps k) \<longleftrightarrow> isArray (get_prop ps k)"
  by (cases "has_prop ps k")
    (simp_all add: read_prop_def object_inherited_not_array get_prop_absent)

lemma number_read_prop:
  "typeof (read_prop ps k) = ''number'' \<longleftrightarrow> typeof (get_prop ps k) = ''number''"
  by (cases "has_prop ps k")
    (simp_all add: read_prop_def object_inherited_not_number get_prop_absent)

lemma isArray_has_prop: "isArray (get_prop ps k) \<Longrightarrow> has_prop ps k"
  by (rule get_prop_present) auto

lemma number_has_prop: "typeof (get_prop ps k) = ''number'' \<Longrightarrow> has_prop ps k"
  by (rule get_prop_present) auto

lemma assign_own: "has_prop ps k \<Longrightarrow> assign k v ps = set_prop k v ps"
  by (simp add: assign_def)

lemma assign_other: "k \<noteq> ''__proto__'' \<Longrightarrow> assign k v ps = set_prop k v ps"
  by (simp add: assign_def)

lemma assign_proto: "\<not> has_prop ps ''__proto__'' \<Longrightarrow> assign ''__proto__'' v ps = ps"
  by (simp add: assign_def)

lemma has_set_prop: "has_prop (set_prop k v ps) k"
  by (induction ps) auto

lemma composite_iff:
  "truthy v \<and> typeof v = ''object'' \<longleftrightarrow> isObject v \<or> isArray v \<or> v = JObjectPrototype"
  by (cases v) simp_all

lemma not_succeeded_Inl [simp]: "\<not> succeeded (Inl e, w)"
  by (simp add: succeeded_def)

subsection \<open>Saving\<close>

lemma save_refused:
  "\<not> may_write (disk w) (filePath w) \<Longrightarrow> save rt w = (Inl (Error FILE_NOT_FOUND), w)"
  by (simp add: save_def writeFile_def errors_simps)

lemma save_written:
  "may_write (disk w) (filePath w) \<Longrightarrow>
   save rt w = (Inr JUndefined,
     w\<lparr>disk := (disk w)\<lparr>files := (files (disk w))(filePath w \<mapsto> stringify rt (JObj (data w)))\<rparr>\<rparr>)"
  by (simp add: save_def writeFile_def)

lemma save_fst: "fst (save rt w) = Inr JUndefined \<or> fst (save rt w) = Inl (Error FILE_NOT_FOUND)"
  by (cases "may_write (disk w) (filePath w)") (simp_all add: save_refused save_written)

lemma save_succeeded: "may_write (disk w) (filePath w) \<Longrightarrow> succeeded (save rt w)"
  by (simp add: save_written succeeded_def)

lemma save_in_sync: "succeeded (save rt w) \<Longrightarrow> in_sync rt (snd (save rt w))"
  by (cases "may_write (disk w) (filePath w)")
    (simp_all add: save_refused save_written succeeded_def in_sync_def)

lemma save_data [simp]: "data (snd (save rt w)) = data w"
  by (cases "may_write (disk w) (filePath w)") (simp_all add: save_refused save_written)

lemma save_filePath [simp]: "filePath (snd (save rt w)) = filePath w"
  by (cases "may_write (disk w) (filePath w)") (simp_all add: save_refused save_written)

section \<open>Reads\<close>

lemma reads_return_the_state:
  "snd (fetch w key) = w \<and> snd (has w key) = w \<and> snd (objectFetch rt w key subKey) = w
   \<and> snd (arrayFetch w key index) = w \<and> snd (getAllKeys w) = w \<and> snd (getAllValues w) = w"
  by (simp add: fetch_def has_def objectFetch_def arrayFetch_def getAllKeys_def
      getAllValues_def Let_def)

lemma fetch_stored:
  "has_prop (data w) k \<Longrightarrow> fetch w (JStr k) = (Inr (get_prop (data w) k), w)"
  by (simp add: fetch_def read_prop_own)

lemma fetch_not_stored:
  "\<not> has_prop (data w) k \<Longrightarrow> fetch w (JStr k) = (Inr (object_inherited k), w)"
  by (simp add: fetch_def read_prop_absent)

lemma fetch_not_stored_not_inherited:
  assumes "\<not> has_prop (data w) k"
    and "k \<noteq> ''__proto__''" and "k \<noteq> ''constructor''" and "k \<notin> set object_prototype_methods"
  shows "fetch w (JStr k) = (Inr JUndefined, w)"
  using assms by (simp add: fetch_not_stored object_inherited_def)

text \<open>
  C9. The read operations leave the whole state as it was (\<open>reads_return_the_state\<close>),
  and \<open>fetch\<close> returns the stored value of a key that is stored. For a key that is not
  stored it should return the absent-indicator, and it does unless the key names a member
  of \<^verbatim>\<open>Object.prototype\<close>: \<^verbatim>\<open>this.data[key]\<close> then finds the inherited member. On a
  store that holds nothing, \<open>has\<close> says of \<open>constructor\<close>, \<open>toString\<close> and
  \<open>__proto__\<close> that they do not exist, and \<open>fetch\<close> returns a function, a function and
  the prototype object.
\<close>

theorem fetch_returns_inherited_members:
  "has fresh_world (JStr ''constructor'') = (Inr (JBool False), fresh_world)
   \<and> fetch fresh_world (JStr ''constructor'') = (Inr (JFunction ''Object''), fresh_world)
   \<and> has fresh_world (JStr ''toString'') = (Inr (JBool False), fresh_world)
   \<and> fetch fresh_world (JStr ''toString'')
        = (Inr (JFunction ''Object.prototype.toString''), fresh_world)
   \<and> has fresh_world (JStr ''__proto__'') = (Inr (JBool False), fresh_world)
   \<and> fetch fresh_world (JStr ''__proto__'') = (Inr JObjectPrototype, fresh_world)"
  by (simp add: has_def fetch_def read_prop_def object_inherited_def
      object_prototype_methods_def fresh_world_def)

section \<open>Reading an array by index\<close>

lemma array_at_integer:
  assumes "isInteger index"
  shows "array_at xs index
    = (if 0 \<le> integer_of index \<and> integer_of index < int (length xs)
       then (case xs ! nat (integer_of index) of Some v \<Rightarrow> v | None \<Rightarrow> JUndefined)
       else JUndefined)"
proof (cases index)
  case (JNum n)
  show ?thesis
  proof (cases n)
    case (Finite q)
    with JNum assms have q: "q = of_int \<lfloor>q\<rfloor>" by simp
    have "0 \<le> q \<longleftrightarrow> 0 \<le> \<lfloor>q\<rfloor>" by simp
    with JNum Finite show ?thesis by (auto simp: slot_def nat_less_iff)
  qed (use JNum assms in \<open>auto simp: slot_def\<close>)
qed (use assms in simp_all)

text \<open>
  C7. \<open>arrayFetch\<close> throws \<open>INVALID_VALUE\<close> when the key is not a string or the
  index is not an integer. With a string key and an integer index it throws
  \<open>ARRAY_NOT_FOUND\<close> when the entry at the key is not an array; on an array it returns
  the slot at the zero-based position when the index is in range (a hole reads as the
  absent-indicator), and the absent-indicator, not an error, when the index is negative
  or at least the length.
\<close>

theorem arrayFetch_by_index:
  "(typeof key \<noteq> ''string'' \<or> \<not> isInteger index \<longrightarrow>
      arrayFetch w key index = (Inl (Error INVALID_VALUE), w))
   \<and> (isInteger index \<and> \<not> isArray (get_prop (data w) k) \<longrightarrow>
      arrayFetch w (JStr k) index = (Inl (Error ARRAY_NOT_FOUND), w))
   \<and> (isInteger index \<and> get_prop (data w) k = JArr xs
        \<and> 0 \<le> integer_of index \<and> integer_of index < int (length xs) \<longrightarrow>
      arrayFetch w (JStr k) index
        = (Inr (case xs ! nat (integer_of index) of Some v \<Rightarrow> v | None \<Rightarrow> JUndefined), w))
   \<and> (isInteger index \<and> get_prop (data w) k = JArr xs
        \<and> (integer_of index < 0 \<or> int (length xs) \<le> integer_of index) \<longrightarrow>
      arrayFetch w (JStr k) index = (Inr JUndefined, w))"
proof (intro conjI impI)
  assume "typeof key \<noteq> ''string'' \<or> \<not> isInteger index"
  then show "arrayFetch w key index = (Inl (Error INVALID_VALUE), w)"
    by (auto simp: arrayFetch_def errors_simps)
next
  assume "isInteger index \<and> \<not> isArray (get_prop (data w) k)"
  then show "arrayFetch w (JStr k) index = (Inl (Error ARRAY_NOT_FOUND), w)"
    by (simp add: arrayFetch_def errors_simps isArray_read_prop)
next
  assume "isInteger index \<and> get_prop (data w) k = JArr xs
        \<and> 0 \<le> integer_of index \<and> integer_of index < int (length xs)"
  then show "arrayFetch w (JStr k) index
        = (Inr (case xs ! nat (integer_of index) of Some v \<Rightarrow> v | None \<Rightarrow> JUndefined), w)"
    by (simp add: arrayFetch_def array_at_integer read_prop_present)
next
  assume "isInteger index \<and> get_prop (data w) k = JArr xs
        \<and> (integer_of index < 0 \<or> int (length xs) \<le> integer_of index)"
  then show "arrayFetch w (JStr k) index = (Inr JUndefined, w)"
    by (auto simp: arrayFetch_def array_at_integer read_prop_present)
qed

theorem arrayFetch_by_index_witness:
  "arrayFetch example_world (JStr ''tags'') (JNum (Finite 1)) = (Inr (JStr ''b''), example_world)
   \<and> arrayFetch example_world (JStr ''tags'') (JNum (Finite 5)) = (Inr JUndefined, example_world)
   \<and> arrayFetch example_world (JStr ''tags'') (JNum (Finite (- 1))) = (Inr JUndefined, example_world)
   \<and> arrayFetch example_world (JStr ''name'') (JNum (Finite 0))
        = (Inl (Error ARRAY_NOT_FOUND), example_world)
   \<and> arrayFetch example_world (JStr ''tags'') (JNum (Finite (3 / 2)))
        = (Inl (Error INVALID_VALUE), example_world)
   \<and> arrayFetch example_world (JNum (Finite 0)) (JNum (Finite 0))
        = (Inl (Error INVALID_VALUE), example_world)"
proof -
  let ?xs = "[Some (JStr ''a''), Some (JStr ''b'')]"
  have tags: "get_prop (data example_world) ''tags'' = JArr ?xs"
    and name: "\<not> isArray (get_prop (data example_world) ''name'')"
    by (simp_all add: example_world_def)
  have "arrayFetch example_world (JStr ''tags'') (JNum (Finite 1))
      = (Inr (case ?xs ! nat (integer_of (JNum (Finite 1))) of Some v \<Rightarrow> v | None \<Rightarrow> JUndefined),
         example_world)"
    using tags arrayFetch_by_index
      [of "JStr ''tags''" "JNum (Finite 1)" example_world "''tags''" ?xs]
    by simp
  then have in_range: "arrayFetch example_world (JStr ''tags'') (JNum (Finite 1))
      = (Inr (JStr ''b''), example_world)"
    by simp
  have above: "arrayFetch example_world (JStr ''tags'') (JNum (Finite 5))
      = (Inr JUndefined, example_world)"
    using tags arrayFetch_by_index
      [of "JStr ''tags''" "JNum (Finite 5)" example_world "''tags''" ?xs]
    by simp
  have below: "arrayFetch example_world (JStr ''tags'') (JNum (Finite (- 1)))
      = (Inr JUndefined, example_world)"
    using tags arrayFetch_by_index
      [of "JStr ''tags''" "JNum (Finite (- 1))" example_world "''tags''" ?xs]
    by simp
  have no_array: "arrayFetch example_world (JStr ''name'') (JNum (Finite 0))
      = (Inl (Error ARRAY_NOT_FOUND), example_world)"
    using name arrayFetch_by_index
      [of "JStr ''name''" "JNum (Finite 0)" example_world "''name''" ?xs]
    by simp
  have "\<lfloor>3 / 2 :: rat\<rfloor> = 1"
    by linarith
  then have "\<not> isInteger (JNum (Finite (3 / 2)))"
    by simp
  then have fraction: "arrayFetch example_world (JStr ''tags'') (JNum (Finite (3 / 2)))
      = (Inl (Error INVALID_VALUE), example_world)"
    using arrayFetch_by_index
      [of "JStr ''tags''" "JNum (Finite (3 / 2))" example_world "''tags''" ?xs]
    by blast
  have bad_key: "arrayFetch example_world (JNum (Finite 0)) (JNum (Finite 0))
      = (Inl (Error INVALID_VALUE), example_world)"
    using arrayFetch_by_index
      [of "JNum (Finite 0)" "JNum (Finite 0)" example_world "''tags''" ?xs]
    by simp
  from in_range above below no_array fraction bad_key show ?thesis by blast
qed

section \<open>Object sub-keys\<close>





lemma deleteKey_stored:
  assumes "get_prop (data w) k = v" and "isObject v \<or> isArray v"
  shows "deleteKey rt w (JStr k) (JStr s)
     = (case delete_member v s of
          Inl e \<Rightarrow> (Inl e, w)
        | Inr object' \<Rightarrow> save rt (w\<lparr>data := set_prop k object' (data w)\<rparr>))"
proof -
  from assms have present: "get_prop (data w) k \<noteq> JUndefined" by auto
  then have r: "read_prop (data w) k = v" "has_prop (data w) k"
    using assms(1) by (simp_all add: read_prop_present get_prop_present)
  from assms(2) have "truthy v \<and> typeof v = ''object''"
    by (auto simp: composite_iff)
  with r show ?thesis
    by (simp add: deleteKey_def Let_def split: sum.splits)
qed






text \<open>
  Under \<open>__proto__\<close>, a key that is not stored, both methods find
  \<^verbatim>\<open>Object.prototype\<close>, an object: \<open>objectFetch\<close> reads its members and \<open>deleteKey\<close>
  deletes from it and saves.
\<close>

lemma object_operations_under_proto:
  assumes "\<not> has_prop (data w) ''__proto__''"
  shows "objectFetch rt w (JStr ''__proto__'') (JStr s) = (Inr (get_member rt JObjectPrototype s), w)"
    and "deleteKey rt w (JStr ''__proto__'') (JStr s) = save rt w"
  using assms
  by (simp_all add: objectFetch_def deleteKey_def Let_def read_prop_absent object_inherited_def)

section \<open>Pushing\<close>

lemma push_guarded:
  "value \<noteq> JNull \<Longrightarrow> value \<noteq> JUndefined \<Longrightarrow>
   push rt w (JStr k) value = save rt (w\<lparr>data := push_data k value (data w)\<rparr>)"
  by (simp add: push_def)

lemma push_data_entry:
  assumes "k \<noteq> ''__proto__'' \<or> has_prop d k" and "get_prop d k \<noteq> JArrayPrototype"
  shows "push_data k value d = set_prop k (JArr (elements (get_prop d k) @ [Some value])) d"
proof (cases "isArray (get_prop d k)")
  case True
  with assms(2) obtain xs where xs: "get_prop d k = JArr xs"
    by (cases "get_prop d k") auto
  then have "has_prop d k"
    by (simp add: isArray_has_prop)
  with xs show ?thesis
    by (simp add: push_data_def push_at_def isArray_read_prop)
next
  case False
  then have "elements (get_prop d k) = []"
    by (cases "get_prop d k") auto
  moreover from assms(1) have "assign k (JArr []) d = set_prop k (JArr []) d"
    by (auto simp: assign_def)
  ultimately show ?thesis
    using False
    by (simp add: push_data_def push_at_def isArray_read_prop has_set_prop get_set_prop
        set_prop_twice)
qed

lemma push_data_proto:
  "\<not> has_prop d ''__proto__'' \<Longrightarrow> push_data ''__proto__'' value d = d"
  by (simp add: push_data_def push_at_def assign_def read_prop_def object_inherited_def)

text \<open>
  For a key that is stored or is not \<open>__proto__\<close>, \<open>push\<close> does what it is meant to:
  the entry becomes the array of the former slots, none when the former entry was
  missing or no array, followed by the value, and the save writes it.
\<close>

lemma push_appends:
  assumes "value \<noteq> JNull" and "value \<noteq> JUndefined"
    and "k \<noteq> ''__proto__'' \<or> has_prop (data w) k" and "get_prop (data w) k \<noteq> JArrayPrototype"
  shows "fst (push rt w (JStr k) value) \<noteq> Inl (Error ARRAY_NOT_FOUND)"
    and "get_prop (data (snd (push rt w (JStr k) value))) k
           = JArr (elements (get_prop (data w) k) @ [Some value])"
    and "may_write (disk w) (filePath w) \<Longrightarrow>
           succeeded (push rt w (JStr k) value) \<and> in_sync rt (snd (push rt w (JStr k) value))"
proof -
  let ?w' = "w\<lparr>data := push_data k value (data w)\<rparr>"
  have eq: "push rt w (JStr k) value = save rt ?w'"
    using assms(1,2) by (rule push_guarded)
  show "fst (push rt w (JStr k) value) \<noteq> Inl (Error ARRAY_NOT_FOUND)"
    using save_fst [of rt ?w'] by (auto simp: eq)
  show "get_prop (data (snd (push rt w (JStr k) value))) k
           = JArr (elements (get_prop (data w) k) @ [Some value])"
    using assms(3,4) by (simp add: eq push_data_entry get_set_prop)
  show "succeeded (push rt w (JStr k) value) \<and> in_sync rt (snd (push rt w (JStr k) value))"
    if "may_write (disk w) (filePath w)"
    using that by (simp add: eq save_succeeded save_in_sync)
qed

text \<open>
  C6. For every string key \<open>push\<close> should leave the value appended to the array at the
  key and written to the file. Under \<open>__proto__\<close>, on a store that does not own that
  key, it does not: \<^verbatim>\<open>this.data[key] = []\<close> runs the inherited setter, which makes the
  new array the prototype of the data object, and the value is pushed onto that
  prototype. The call is a save of the data as they were: the data object gets no entry,
  and a write that succeeds leaves a file without the value.
\<close>

theorem push_under_proto_stores_nothing:
  assumes "value \<noteq> JNull" and "value \<noteq> JUndefined"
    and "\<not> has_prop (data w) ''__proto__''"
  shows "push rt w (JStr ''__proto__'') value = save rt w
       \<and> data (snd (push rt w (JStr ''__proto__'') value)) = data w
       \<and> \<not> has_prop (data (snd (push rt w (JStr ''__proto__'') value))) ''__proto__''
       \<and> (succeeded (push rt w (JStr ''__proto__'') value) \<longrightarrow>
            files (disk (snd (push rt w (JStr ''__proto__'') value))) (filePath w)
              = Some (stringify rt (JObj (data w))))"
proof -
  have eq: "push rt w (JStr ''__proto__'') value = save rt w"
    using assms by (simp add: push_guarded push_data_proto)
  have "succeeded (save rt w) \<longrightarrow>
      files (disk (snd (save rt w))) (filePath w) = Some (stringify rt (JObj (data w)))"
    using save_in_sync [of rt w] by (simp add: in_sync_def)
  with assms(3) show ?thesis
    by (simp add: eq)
qed

text \<open>On a store just constructed: the call succeeds, no key is stored, and the file
  holds the serialization of the empty mapping.\<close>

theorem push_under_proto_stores_nothing_witness:
  "JNum (Finite 1) \<noteq> JNull \<and> JNum (Finite 1) \<noteq> JUndefined
   \<and> \<not> has_prop (data fresh_world) ''__proto__''
   \<and> fst (push example_runtime fresh_world (JStr ''__proto__'') (JNum (Finite 1))) = Inr JUndefined
   \<and> data (snd (push example_runtime fresh_world (JStr ''__proto__'') (JNum (Finite 1)))) = []
   \<and> files (disk (snd (push example_runtime fresh_world (JStr ''__proto__'') (JNum (Finite 1)))))
        (filePath fresh_world) = Some (stringify example_runtime (JObj []))"
proof -
  have v: "JNum (Finite 1) \<noteq> JNull" "JNum (Finite 1) \<noteq> JUndefined"
    by simp_all
  have fresh: "\<not> has_prop (data fresh_world) ''__proto__''" "data fresh_world = []"
    by (simp_all add: fresh_world_def)
  have saved: "fst (save example_runtime fresh_world) = Inr JUndefined"
    by (simp add: save_def writeFile_def fresh_world_def)
  note inst = push_under_proto_stores_nothing [OF v fresh(1), of example_runtime]
  from inst saved have ok: "fst (push example_runtime fresh_world (JStr ''__proto__'')
      (JNum (Finite 1))) = Inr JUndefined"
    by simp
  then have "succeeded (push example_runtime fresh_world (JStr ''__proto__'') (JNum (Finite 1)))"
    by (simp add: succeeded_def)
  with inst have "data (snd (push example_runtime fresh_world (JStr ''__proto__'')
        (JNum (Finite 1)))) = data fresh_world"
    and "files (disk (snd (push example_runtime fresh_world (JStr ''__proto__'')
        (JNum (Finite 1))))) (filePath fresh_world)
        = Some (stringify example_runtime (JObj (data fresh_world)))"
    by blast+
  with v fresh ok show ?thesis by simp
qed

section \<open>Arithmetic\<close>

text \<open>
  C5. \<open>add\<close>, \<open>subtract\<close>, \<open>multiply\<close> and \<open>divide\<close>, called with a string key
  and a numeric operand, throw \<open>INVALID_VALUE\<close> and leave the state as it was when the
  key is absent or holds a value that is not a number. Nothing is written, and the key
  is not initialised.
\<close>

theorem arithmetic_requires_stored_number:
  assumes "\<not> has_prop (data w) k \<or> typeof (get_prop (data w) k) \<noteq> ''number''"
  shows "add rt w (JStr k) (JNum n) = (Inl (Error INVALID_VALUE), w)
       \<and> subtract rt w (JStr k) (JNum n) = (Inl (Error INVALID_VALUE), w)
       \<and> multiply rt w (JStr k) (JNum n) = (Inl (Error INVALID_VALUE), w)
       \<and> divide_op rt w (JStr k) (JNum n) = (Inl (Error INVALID_VALUE), w)"
proof -
  from assms have "typeof (get_prop (data w) k) \<noteq> ''number''"
    by (auto simp: get_prop_absent)
  then show ?thesis
    by (simp add: add_def subtract_def multiply_def divide_op_def errors_simps
        number_read_prop)
qed

theorem arithmetic_requires_stored_number_witness:
  "\<not> has_prop (data example_world) ''missing''
   \<and> add example_runtime example_world (JStr ''missing'') (JNum (Finite 1))
       = (Inl (Error INVALID_VALUE), example_world)
   \<and> typeof (get_prop (data example_world) ''name'') \<noteq> ''number''
   \<and> add example_runtime example_world (JStr ''name'') (JNum (Finite 1))
       = (Inl (Error INVALID_VALUE), example_world)
   \<and> divide_op example_runtime example_world (JStr ''name'') (JNum (Finite 0))
       = (Inl (Error INVALID_VALUE), example_world)"
proof -
  have absent: "\<not> has_prop (data example_world) ''missing''"
    by (simp add: example_world_def)
  have a_string: "typeof (get_prop (data example_world) ''name'') \<noteq> ''number''"
    by (simp add: example_world_def)
  show ?thesis
    using absent a_string
      arithmetic_requires_stored_number
        [of example_world "''missing''" example_runtime "Finite 1"]
      arithmetic_requires_stored_number
        [of example_world "''name''" example_runtime "Finite 1"]
      arithmetic_requires_stored_number
        [of example_world "''name''" example_runtime "Finite 0"]
    by blast
qed

text \<open>
  C2, as the code has it. \<open>divide\<close> with a string key and the operand \<open>0\<close> never
  succeeds and changes nothing. The stored value is tested before the operand: when the
  key is absent or holds a value that is not a number, the call throws
  \<open>INVALID_VALUE\<close>.
\<close>

theorem divide_by_zero_checks_stored_value_first:
  "\<not> succeeded (divide_op rt w (JStr k) (JNum (Finite 0)))
   \<and> snd (divide_op rt w (JStr k) (JNum (Finite 0))) = w
   \<and> (\<not> has_prop (data w) k \<or> typeof (get_prop (data w) k) \<noteq> ''number'' \<longrightarrow>
        fst (divide_op rt w (JStr k) (JNum (Finite 0))) = Inl (Error INVALID_VALUE))"
proof (cases "typeof (get_prop (data w) k) = ''number''")
  case True
  then show ?thesis
    by (auto simp: divide_op_def succeeded_def get_prop_absent number_read_prop)
next
  case False
  then show ?thesis
    by (simp add: divide_op_def succeeded_def errors_simps number_read_prop)
qed

text \<open>
  The claim as stated fails on a key that holds a string and on an absent key: what is
  thrown there is \<^verbatim>\<open>errors.INVALID_VALUE\<close>, not \<^verbatim>\<open>errors.DIVISION_BY_ZERO\<close>.
\<close>

theorem divide_by_zero_counterexample:
  "fst (divide_op example_runtime example_world (JStr ''name'') (JNum (Finite 0)))
     = Inl (errors ''INVALID_VALUE'')
   \<and> fst (divide_op example_runtime example_world (JStr ''missing'') (JNum (Finite 0)))
     = Inl (errors ''INVALID_VALUE'')
   \<and> errors ''INVALID_VALUE'' \<noteq> errors ''DIVISION_BY_ZERO''"
  by (simp add: divide_op_def errors_simps read_prop_def object_inherited_def
      object_prototype_methods_def example_world_def)

theorem divide_by_zero_checks_stored_value_first_witness:
  "typeof (get_prop (data example_world) ''name'') \<noteq> ''number''
   \<and> divide_op example_runtime example_world (JStr ''name'') (JNum (Finite 0))
        = (Inl (Error INVALID_VALUE), example_world)
   \<and> \<not> succeeded (divide_op example_runtime example_world (JStr ''count'') (JNum (Finite 0)))
   \<and> snd (divide_op example_runtime example_world (JStr ''count'') (JNum (Finite 0)))
        = example_world"
proof -
  have a_string: "typeof (get_prop (data example_world) ''name'') \<noteq> ''number''"
    by (simp add: example_world_def)
  note name = divide_by_zero_checks_stored_value_first [of example_runtime example_world "''name''"]
  note count = divide_by_zero_checks_stored_value_first [of example_runtime example_world "''count''"]
  from a_string name
  have "fst (divide_op example_runtime example_world (JStr ''name'') (JNum (Finite 0)))
        = Inl (Error INVALID_VALUE)"
    and "snd (divide_op example_runtime example_world (JStr ''name'') (JNum (Finite 0)))
        = example_world"
    by blast+
  then have 1: "divide_op example_runtime example_world (JStr ''name'') (JNum (Finite 0))
        = (Inl (Error INVALID_VALUE), example_world)"
    by (simp add: prod_eq_iff)
  from a_string 1 count show ?thesis by blast
qed

text \<open>
  On a stored number the zero test is reached and throws \<^verbatim>\<open>errors.DIVISION_BY_ZERO\<close>,
  a name the catalog does not export: the value thrown is \<^verbatim>\<open>undefined\<close>.
\<close>

lemma divide_by_zero_on_number:
  "get_prop (data w) k = JNum m \<Longrightarrow>
   divide_op rt w (JStr k) (JNum (Finite 0)) = (Inl Undefined, w)"
  by (simp add: divide_op_def errors_simps number_read_prop)

section \<open>Deleting by prefix\<close>

lemma foldl_delete_prop:
  "foldl (\<lambda>d k. delete_prop k d) d ks = filter (\<lambda>p. fst p \<notin> set ks) d"
proof (induction ks arbitrary: d)
  case Nil
  then show ?case by simp
next
  case (Cons k ks)
  have "foldl (\<lambda>d k. delete_prop k d) d (k # ks)
        = filter (\<lambda>p. fst p \<notin> set ks) (delete_prop k d)"
    by (simp add: Cons.IH)
  also have "\<dots> = filter (\<lambda>p. fst p \<notin> set ks) (filter (\<lambda>p. fst p \<noteq> k) d)"
    by (simp only: delete_prop_filter)
  also have "\<dots> = filter (\<lambda>p. fst p \<notin> set (k # ks)) d"
    by (induction d) auto
  finally show ?case .
qed

lemma deleteEach_loop_empty_prefix:
  "foldl (deleteEach_step []) d (own_keys d) = []"
proof -
  have "deleteEach_step [] = (\<lambda>d k. delete_prop k d)"
    by (intro ext) (simp add: deleteEach_step_def)
  then have "foldl (deleteEach_step []) d (own_keys d)
      = filter (\<lambda>p. fst p \<notin> set (own_keys d)) d"
    by (simp only: foldl_delete_prop)
  also have "\<dots> = []"
    by (simp add: set_own_keys filter_empty_conv)
  finally show ?thesis .
qed

text \<open>
  C10. Every key starts with the empty string, so \<open>deleteEach\<close> with the empty prefix
  removes every key: it settles as \<open>clear\<close> does and leaves the same data mapping and
  the same file system, whether the write succeeds or not.
\<close>

theorem deleteEach_empty_prefix_is_clear:
  "deleteEach rt w (JStr '''') = clear rt w"
  by (simp add: deleteEach_def clear_def deleteEach_loop_empty_prefix)

theorem deleteEach_empty_prefix_is_clear_witness:
  "deleteEach example_runtime example_world (JStr '''')
     = clear example_runtime example_world
   \<and> fst (deleteEach example_runtime example_world (JStr '''')) = Inr JUndefined
   \<and> data (snd (deleteEach example_runtime example_world (JStr ''''))) = []
   \<and> files (disk (snd (deleteEach example_runtime example_world (JStr ''''))))
        ''/morsel-database.json'' = Some ''{}''"
proof -
  have "fst (clear example_runtime example_world) = Inr JUndefined
   \<and> data (snd (clear example_runtime example_world)) = []
   \<and> files (disk (snd (clear example_runtime example_world)))
        ''/morsel-database.json'' = Some ''{}''"
    by (simp add: clear_def save_def writeFile_def example_world_def example_disk_def
        example_runtime_def)
  then show ?thesis
    by (simp add: deleteEach_empty_prefix_is_clear [of example_runtime example_world])
qed

section \<open>Destroying\<close>

lemma destroy_success:
  assumes "succeeded (destroy rt w)"
  shows "data (snd (destroy rt w)) = []
    \<and> files (disk (snd (destroy rt w))) (filePath w) = Some (stringify rt (JObj []))"
proof (cases "unlink (disk w) (filePath w)")
  case None
  with assms show ?thesis by (simp add: destroy_def succeeded_def)
next
  case (Some d)
  show ?thesis
  proof (cases "may_write d (filePath w)")
    case True
    with Some show ?thesis
      by (simp add: destroy_def clear_def save_written)
  next
    case False
    with Some assms show ?thesis
      by (simp add: destroy_def clear_def save_refused succeeded_def)
  qed
qed

lemma destroy_unlink_refused:
  "files (disk w) (filePath w) = None \<or> \<not> may_unlink (disk w) (filePath w) \<Longrightarrow>
   destroy rt w = (Inl (Error FILE_NOT_FOUND), w)"
  by (auto simp: destroy_def unlink_def errors_simps)

lemma set_after_destroy:
  assumes "succeeded (destroy rt w)" and "value \<noteq> JNull" and "value \<noteq> JUndefined"
  shows "succeeded (set_value rt (snd (destroy rt w)) (JStr k) value)"
proof (cases "unlink (disk w) (filePath w)")
  case None
  with assms show ?thesis by (simp add: destroy_def succeeded_def)
next
  case (Some d)
  then have d: "may_write d = may_write (disk w)"
    by (auto simp: unlink_def split: if_splits)
  show ?thesis
  proof (cases "may_write (disk w) (filePath w)")
    case True
    with Some d assms show ?thesis
      by (simp add: destroy_def clear_def save_written set_value_def succeeded_def)
  next
    case False
    with Some d assms show ?thesis
      by (simp add: destroy_def clear_def save_refused succeeded_def)
  qed
qed

text \<open>
  C4. \<open>destroy\<close> removes the file and then calls \<open>clear\<close>, which saves: a
  \<open>destroy\<close> that succeeds leaves no key, and leaves at the store's path a file that
  holds the serialization of the empty mapping. Here it is run on a store whose file
  exists.
\<close>

theorem destroy_writes_the_file_again:
  "files (disk example_world) (filePath example_world) = Some ''{}''
   \<and> fst (destroy example_runtime example_world) = Inr JUndefined
   \<and> data (snd (destroy example_runtime example_world)) = []
   \<and> getAllKeys (snd (destroy example_runtime example_world))
        = (Inr (JArr []), snd (destroy example_runtime example_world))
   \<and> files (disk (snd (destroy example_runtime example_world))) (filePath example_world)
        = Some (stringify example_runtime (JObj []))"
  by (simp add: destroy_def unlink_def clear_def save_def writeFile_def getAllKeys_def
      own_keys_def example_world_def example_disk_def)

section \<open>Memory and disk after a mutation\<close>

lemma set_value_in_sync:
  "succeeded (set_value rt w key value) \<Longrightarrow> in_sync rt (snd (set_value rt w key value))"
  by (auto simp: set_value_def save_in_sync split: if_splits)

lemma push_in_sync:
  "succeeded (push rt w key value) \<Longrightarrow> in_sync rt (snd (push rt w key value))"
  by (auto simp: push_def Let_def save_in_sync split: if_splits)

lemma remove_in_sync:
  "succeeded (remove rt w key) \<Longrightarrow> in_sync rt (snd (remove rt w key))"
  by (auto simp: remove_def save_in_sync split: if_splits)

lemma deleteKey_in_sync:
  "succeeded (deleteKey rt w objectKey key) \<Longrightarrow> in_sync rt (snd (deleteKey rt w objectKey key))"
  by (auto simp: deleteKey_def Let_def save_in_sync split: if_splits sum.splits)

lemma deleteEach_in_sync:
  "succeeded (deleteEach rt w key) \<Longrightarrow> in_sync rt (snd (deleteEach rt w key))"
  by (auto simp: deleteEach_def save_in_sync split: if_splits)

lemma clear_in_sync:
  "succeeded (clear rt w) \<Longrightarrow> in_sync rt (snd (clear rt w))"
  by (simp add: clear_def save_in_sync)

lemma destroy_in_sync:
  assumes ok: "succeeded (destroy rt w)"
  shows "in_sync rt (snd (destroy rt w))"
proof (cases "unlink (disk w) (filePath w)")
  case None
  with ok show ?thesis by (simp add: destroy_def succeeded_def)
next
  case (Some d)
  obtain r w' where c: "clear rt (w\<lparr>disk := d\<rparr>) = (r, w')"
    by (cases "clear rt (w\<lparr>disk := d\<rparr>)")
  with Some ok have "succeeded (clear rt (w\<lparr>disk := d\<rparr>))" and "snd (destroy rt w) = w'"
    by (auto simp: destroy_def succeeded_def split: sum.splits)
  with c clear_in_sync [of rt "w\<lparr>disk := d\<rparr>"] show ?thesis by simp
qed

lemma delete_array_in_sync:
  "succeeded (delete rt w key value) \<Longrightarrow> isArray (get_prop (data w) (the_string key))
   \<Longrightarrow> in_sync rt (snd (delete rt w key value))"
  by (auto simp: delete_def Let_def save_in_sync isArray_read_prop split: if_splits)

lemma delete_not_array:
  "typeof key = ''string'' \<Longrightarrow> value \<noteq> JNull \<Longrightarrow> value \<noteq> JUndefined
   \<Longrightarrow> \<not> isArray (get_prop (data w) (the_string key))
   \<Longrightarrow> delete rt w key value = (Inr JUndefined, w)"
  by (simp add: delete_def isArray_read_prop)

text \<open>
  C1, as the code has it. When \<open>set\<close>, \<open>push\<close>, \<open>deleteKey\<close>, \<open>deleteEach\<close>,
  \<open>remove\<close>, \<open>clear\<close> or \<open>destroy\<close> succeeds, the document at the store's path is
  the serialization of the data in memory; so it is when \<open>delete\<close> succeeds on a key
  whose entry is an array. On a key whose entry is not an array, \<open>delete\<close> with valid
  arguments succeeds without saving: memory and disk stay as they were.
\<close>

theorem successful_mutation_leaves_disk_in_sync:
  "(succeeded (set_value rt w key value) \<longrightarrow> in_sync rt (snd (set_value rt w key value)))
   \<and> (succeeded (push rt w key value) \<longrightarrow> in_sync rt (snd (push rt w key value)))
   \<and> (succeeded (deleteKey rt w key subKey) \<longrightarrow> in_sync rt (snd (deleteKey rt w key subKey)))
   \<and> (succeeded (deleteEach rt w key) \<longrightarrow> in_sync rt (snd (deleteEach rt w key)))
   \<and> (succeeded (remove rt w key) \<longrightarrow> in_sync rt (snd (remove rt w key)))
   \<and> (succeeded (clear rt w) \<longrightarrow> in_sync rt (snd (clear rt w)))
   \<and> (succeeded (destroy rt w) \<longrightarrow> in_sync rt (snd (destroy rt w)))
   \<and> (succeeded (delete rt w key value) \<and> isArray (get_prop (data w) (the_string key))
        \<longrightarrow> in_sync rt (snd (delete rt w key value)))
   \<and> (typeof key = ''string'' \<and> value \<noteq> JNull \<and> value \<noteq> JUndefined
        \<and> \<not> isArray (get_prop (data w) (the_string key))
        \<longrightarrow> delete rt w key value = (Inr JUndefined, w))"
  by (intro conjI impI)
    (simp_all add: set_value_in_sync push_in_sync deleteKey_in_sync deleteEach_in_sync
      remove_in_sync clear_in_sync destroy_in_sync delete_array_in_sync delete_not_array)

text \<open>
  The claim as stated fails for \<open>delete\<close> on a store that was just constructed and
  has no file yet: the call succeeds on a key that holds no array, and there is still no
  document at the path.
\<close>

theorem delete_without_array_counterexample:
  "succeeded (delete example_runtime fresh_world (JStr ''tags'') (JStr ''a''))
   \<and> files (disk (snd (delete example_runtime fresh_world (JStr ''tags'') (JStr ''a''))))
        (filePath fresh_world) = None
   \<and> \<not> in_sync example_runtime
         (snd (delete example_runtime fresh_world (JStr ''tags'') (JStr ''a'')))"
  by (simp add: delete_def Let_def isArray_read_prop succeeded_def in_sync_def fresh_world_def)

theorem successful_mutation_leaves_disk_in_sync_witness:
  "succeeded (set_value example_runtime example_world (JStr ''count'') (JNum (Finite 4)))
   \<and> in_sync example_runtime
        (snd (set_value example_runtime example_world (JStr ''count'') (JNum (Finite 4))))
   \<and> files (disk (snd (set_value example_runtime example_world (JStr ''count'') (JNum (Finite 4)))))
        ''/morsel-database.json'' = Some ''{name;count;tags;cfg;}''
   \<and> succeeded (delete example_runtime example_world (JStr ''tags'') (JStr ''a''))
   \<and> isArray (get_prop (data example_world) ''tags'')
   \<and> in_sync example_runtime
        (snd (delete example_runtime example_world (JStr ''tags'') (JStr ''a'')))
   \<and> delete example_runtime example_world (JStr ''name'') (JStr ''a'')
        = (Inr JUndefined, example_world)"
proof -
  have s1: "succeeded (set_value example_runtime example_world (JStr ''count'') (JNum (Finite 4)))"
    by (simp add: set_value_def assign_def save_def writeFile_def succeeded_def example_world_def
        example_disk_def)
  have s2: "succeeded (delete example_runtime example_world (JStr ''tags'') (JStr ''a''))"
    by (simp add: delete_def Let_def isArray_read_prop save_def writeFile_def succeeded_def
        example_world_def example_disk_def)
  have a: "isArray (get_prop (data example_world) ''tags'')"
    by (simp add: example_world_def)
  have f: "files (disk (snd (set_value example_runtime example_world (JStr ''count'') (JNum (Finite 4)))))
        ''/morsel-database.json'' = Some ''{name;count;tags;cfg;}''"
    by (simp add: set_value_def assign_def save_def writeFile_def example_world_def
        example_disk_def example_runtime_def)
  have n: "\<not> isArray (get_prop (data example_world) (the_string (JStr ''name'')))"
    by (simp add: example_world_def)
  show ?thesis
    using s1 s2 a f n
      successful_mutation_leaves_disk_in_sync
        [of example_runtime example_world "JStr ''count''" "JNum (Finite 4)"]
      successful_mutation_leaves_disk_in_sync
        [of example_runtime example_world "JStr ''tags''" "JStr ''a''"]
      successful_mutation_leaves_disk_in_sync
        [of example_runtime example_world "JStr ''name''" "JStr ''a''"]
    by simp
qed

section \<open>A save that fails\<close>

lemma destroy_refused_write:
  assumes "\<not> may_write (disk w) (filePath w)"
    and "files (disk w) (filePath w) \<noteq> None" and "may_unlink (disk w) (filePath w)"
  shows "destroy rt w = (Inl (Error FILE_NOT_FOUND),
      w\<lparr>data := [], disk := (disk w)\<lparr>files := (files (disk w))(filePath w := None)\<rparr>\<rparr>)"
  using assms by (simp add: destroy_def unlink_def clear_def save_refused errors_simps)

text \<open>
  C8. When the file system refuses the write, every mutating operation that reaches its
  save throws \<open>FILE_NOT_FOUND\<close> and returns the state with the mutation applied to
  the data in memory and the file system as it was (for \<open>destroy\<close>, as the removal
  of the file left it): nothing is rolled back.
\<close>

theorem failed_save_keeps_mutation:
  assumes refused: "\<not> may_write (disk w) (filePath w)"
  shows
   "(value \<noteq> JNull \<and> value \<noteq> JUndefined \<longrightarrow>
       set_value rt w (JStr k) value
         = (Inl (Error FILE_NOT_FOUND), w\<lparr>data := assign k value (data w)\<rparr>))
    \<and> (value \<noteq> JNull \<and> value \<noteq> JUndefined
         \<and> (k \<noteq> ''__proto__'' \<or> has_prop (data w) k) \<longrightarrow>
       set_value rt w (JStr k) value
         = (Inl (Error FILE_NOT_FOUND), w\<lparr>data := set_prop k value (data w)\<rparr>))
    \<and> (value \<noteq> JNull \<and> value \<noteq> JUndefined \<longrightarrow>
       push rt w (JStr k) value
         = (Inl (Error FILE_NOT_FOUND), w\<lparr>data := push_data k value (data w)\<rparr>))
    \<and> (value \<noteq> JNull \<and> value \<noteq> JUndefined
         \<and> (k \<noteq> ''__proto__'' \<or> has_prop (data w) k)
         \<and> get_prop (data w) k \<noteq> JArrayPrototype \<longrightarrow>
       push rt w (JStr k) value
         = (Inl (Error FILE_NOT_FOUND),
            w\<lparr>data := set_prop k (JArr (elements (get_prop (data w) k) @ [Some value]))
                          (data w)\<rparr>))
    \<and> remove rt w (JStr k) = (Inl (Error FILE_NOT_FOUND), w\<lparr>data := delete_prop k (data w)\<rparr>)
    \<and> (value \<noteq> JNull \<and> value \<noteq> JUndefined \<and> isArray (get_prop (data w) k) \<longrightarrow>
       delete rt w (JStr k) value
         = (Inl (Error FILE_NOT_FOUND),
            w\<lparr>data := set_prop k (array_without (get_prop (data w) k) value) (data w)\<rparr>))
    \<and> ((isObject (get_prop (data w) k) \<or> isArray (get_prop (data w) k))
         \<and> delete_member (get_prop (data w) k) s = Inr object' \<longrightarrow>
       deleteKey rt w (JStr k) (JStr s)
         = (Inl (Error FILE_NOT_FOUND), w\<lparr>data := set_prop k object' (data w)\<rparr>))
    \<and> deleteEach rt w (JStr p)
         = (Inl (Error FILE_NOT_FOUND),
            w\<lparr>data := foldl (deleteEach_step p) (data w) (own_keys (data w))\<rparr>)
    \<and> clear rt w = (Inl (Error FILE_NOT_FOUND), w\<lparr>data := []\<rparr>)
    \<and> (files (disk w) (filePath w) \<noteq> None \<and> may_unlink (disk w) (filePath w) \<longrightarrow>
       destroy rt w
         = (Inl (Error FILE_NOT_FOUND),
            w\<lparr>data := [],
              disk := (disk w)\<lparr>files := (files (disk w))(filePath w := None)\<rparr>\<rparr>))
    \<and> (get_prop (data w) k = JNum m \<longrightarrow>
       add rt w (JStr k) (JNum n)
         = (Inl (Error FILE_NOT_FOUND), w\<lparr>data := set_prop k (JNum (num_add rt m n)) (data w)\<rparr>)
     \<and> subtract rt w (JStr k) (JNum n)
         = (Inl (Error FILE_NOT_FOUND), w\<lparr>data := set_prop k (JNum (num_sub rt m n)) (data w)\<rparr>)
     \<and> multiply rt w (JStr k) (JNum n)
         = (Inl (Error FILE_NOT_FOUND), w\<lparr>data := set_prop k (JNum (num_mul rt m n)) (data w)\<rparr>))
    \<and> (get_prop (data w) k = JNum m \<and> \<not> num_eq n (Finite 0) \<longrightarrow>
       divide_op rt w (JStr k) (JNum n)
         = (Inl (Error FILE_NOT_FOUND), w\<lparr>data := set_prop k (JNum (num_div rt m n)) (data w)\<rparr>))"
proof (intro conjI impI)
  assume "value \<noteq> JNull \<and> value \<noteq> JUndefined"
  with refused show "set_value rt w (JStr k) value
         = (Inl (Error FILE_NOT_FOUND), w\<lparr>data := assign k value (data w)\<rparr>)"
    by (simp add: set_value_def save_refused)
next
  assume "value \<noteq> JNull \<and> value \<noteq> JUndefined
         \<and> (k \<noteq> ''__proto__'' \<or> has_prop (data w) k)"
  with refused show "set_value rt w (JStr k) value
         = (Inl (Error FILE_NOT_FOUND), w\<lparr>data := set_prop k value (data w)\<rparr>)"
    by (auto simp: set_value_def save_refused assign_def)
next
  assume "value \<noteq> JNull \<and> value \<noteq> JUndefined"
  with refused show "push rt w (JStr k) value
         = (Inl (Error FILE_NOT_FOUND), w\<lparr>data := push_data k value (data w)\<rparr>)"
    by (simp add: push_guarded save_refused)
next
  assume "value \<noteq> JNull \<and> value \<noteq> JUndefined
         \<and> (k \<noteq> ''__proto__'' \<or> has_prop (data w) k)
         \<and> get_prop (data w) k \<noteq> JArrayPrototype"
  with refused show "push rt w (JStr k) value
         = (Inl (Error FILE_NOT_FOUND),
            w\<lparr>data := set_prop k (JArr (elements (get_prop (data w) k) @ [Some value]))
                          (data w)\<rparr>)"
    by (simp add: push_guarded save_refused push_data_entry)
next
  from refused show "remove rt w (JStr k)
      = (Inl (Error FILE_NOT_FOUND), w\<lparr>data := delete_prop k (data w)\<rparr>)"
    by (simp add: remove_def save_refused)
next
  assume "value \<noteq> JNull \<and> value \<noteq> JUndefined \<and> isArray (get_prop (data w) k)"
  with refused show "delete rt w (JStr k) value
         = (Inl (Error FILE_NOT_FOUND),
            w\<lparr>data := set_prop k (array_without (get_prop (data w) k) value) (data w)\<rparr>)"
    by (simp add: delete_def save_refused isArray_read_prop isArray_has_prop read_prop_own
        assign_own)
next
  assume "(isObject (get_prop (data w) k) \<or> isArray (get_prop (data w) k))
         \<and> delete_member (get_prop (data w) k) s = Inr object'"
  with refused show "deleteKey rt w (JStr k) (JStr s)
         = (Inl (Error FILE_NOT_FOUND), w\<lparr>data := set_prop k object' (data w)\<rparr>)"
    by (simp add: deleteKey_stored save_refused)
next
  from refused show "deleteEach rt w (JStr p)
         = (Inl (Error FILE_NOT_FOUND),
            w\<lparr>data := foldl (deleteEach_step p) (data w) (own_keys (data w))\<rparr>)"
    by (simp add: deleteEach_def save_refused)
next
  from refused show "clear rt w = (Inl (Error FILE_NOT_FOUND), w\<lparr>data := []\<rparr>)"
    by (simp add: clear_def save_refused)
next
  assume "files (disk w) (filePath w) \<noteq> None \<and> may_unlink (disk w) (filePath w)"
  with refused show "destroy rt w
         = (Inl (Error FILE_NOT_FOUND),
            w\<lparr>data := [],
              disk := (disk w)\<lparr>files := (files (disk w))(filePath w := None)\<rparr>\<rparr>)"
    by (simp add: destroy_refused_write)
next
  assume m: "get_prop (data w) k = JNum m"
  with refused show "add rt w (JStr k) (JNum n)
         = (Inl (Error FILE_NOT_FOUND), w\<lparr>data := set_prop k (JNum (num_add rt m n)) (data w)\<rparr>)"
    by (simp add: add_def save_refused number_read_prop number_has_prop read_prop_own
        assign_own)
  from m refused show "subtract rt w (JStr k) (JNum n)
         = (Inl (Error FILE_NOT_FOUND), w\<lparr>data := set_prop k (JNum (num_sub rt m n)) (data w)\<rparr>)"
    by (simp add: subtract_def save_refused number_read_prop number_has_prop read_prop_own
        assign_own)
  from m refused show "multiply rt w (JStr k) (JNum n)
         = (Inl (Error FILE_NOT_FOUND), w\<lparr>data := set_prop k (JNum (num_mul rt m n)) (data w)\<rparr>)"
    by (simp add: multiply_def save_refused number_read_prop number_has_prop read_prop_own
        assign_own)
next
  assume "get_prop (data w) k = JNum m \<and> \<not> num_eq n (Finite 0)"
  with refused show "divide_op rt w (JStr k) (JNum n)
         = (Inl (Error FILE_NOT_FOUND), w\<lparr>data := set_prop k (JNum (num_div rt m n)) (data w)\<rparr>)"
    by (simp add: divide_op_def save_refused number_read_prop number_has_prop read_prop_own
        assign_own)
qed

theorem failed_save_keeps_mutation_witness:
  "\<not> may_write (disk readonly_world) (filePath readonly_world)
   \<and> fst (set_value example_runtime readonly_world (JStr ''count'') (JNum (Finite 4)))
        = Inl (Error FILE_NOT_FOUND)
   \<and> get_prop (data (snd (set_value example_runtime readonly_world (JStr ''count'')
          (JNum (Finite 4))))) ''count'' = JNum (Finite 4)
   \<and> disk (snd (set_value example_runtime readonly_world (JStr ''count'') (JNum (Finite 4))))
        = disk readonly_world
   \<and> files (disk readonly_world) ''/morsel-database.json'' = Some ''{}''
   \<and> clear example_runtime readonly_world
        = (Inl (Error FILE_NOT_FOUND), readonly_world\<lparr>data := []\<rparr>)
   \<and> fst (add example_runtime readonly_world (JStr ''count'') (JNum (Finite 1)))
        = Inl (Error FILE_NOT_FOUND)
   \<and> get_prop (data (snd (add example_runtime readonly_world (JStr ''count'') (JNum (Finite 1)))))
        ''count'' = JNum (Finite 4)"
proof -
  have refused: "\<not> may_write (disk readonly_world) (filePath readonly_world)"
    and content: "files (disk readonly_world) ''/morsel-database.json'' = Some ''{}''"
    and count: "get_prop (data readonly_world) ''count'' = JNum (Finite 3)"
    by (simp_all add: readonly_world_def example_world_def example_disk_def)
  have sum: "num_add example_runtime (Finite 3) (Finite 1) = Finite 4"
    by (simp add: example_runtime_def)
  note inst = failed_save_keeps_mutation [OF refused]
  have v: "JNum (Finite 4) \<noteq> JNull \<and> JNum (Finite 4) \<noteq> JUndefined"
    by simp
  from v inst [of "JNum (Finite 4)" example_runtime "''count''"]
  have 1: "set_value example_runtime readonly_world (JStr ''count'') (JNum (Finite 4))
      = (Inl (Error FILE_NOT_FOUND),
         readonly_world\<lparr>data := set_prop ''count'' (JNum (Finite 4)) (data readonly_world)\<rparr>)"
    by blast
  from inst [of "JNum (Finite 4)" example_runtime "''count''"]
  have 2: "clear example_runtime readonly_world
        = (Inl (Error FILE_NOT_FOUND), readonly_world\<lparr>data := []\<rparr>)"
    by blast
  from count inst [of "JNum (Finite 4)" example_runtime "''count''" _ _ _ "Finite 3" "Finite 1"]
  have 3: "add example_runtime readonly_world (JStr ''count'') (JNum (Finite 1))
      = (Inl (Error FILE_NOT_FOUND),
         readonly_world\<lparr>data := set_prop ''count''
           (JNum (num_add example_runtime (Finite 3) (Finite 1))) (data readonly_world)\<rparr>)"
    by blast
  from refused content 2 show ?thesis
    by (simp add: 1 3 sum get_set_prop)
qed

end
